theory Spec2Isabelle
  imports Main
begin

section \<open>Opaque documents\<close>

text \<open>
  Setting values (\<^verbatim>\<open>value: object\<close>), request bodies, event payloads and response
  bodies are JSON documents. The services never look inside them.
\<close>

datatype json =
    JNull
  | JBool bool
  | JNumber int
  | JString string
  | JArray "json list"
  | JObject "(string \<times> json) list"

section \<open>SettingService and its two stores\<close>

subsection \<open>Events\<close>

text \<open>
  \<^verbatim>\<open>new SettingUpdatedEvent({ createdBy, data: { id } })\<close>: the three event classes
  are built from the same argument object, which has the acting principal and a
  \<^verbatim>\<open>data\<close> object holding the setting's id and nothing else.
\<close>

record event_data =
  createdBy :: string
  data :: json

datatype event =
    SettingCreatedEvent event_data
  | SettingUpdatedEvent event_data
  | SettingDeletedEvent event_data

subsection \<open>The world the service acts on\<close>

text \<open>
  An error is a rejected promise. \<open>NotFound\<close> is the store's answer for an absent
  key; \<open>PersistenceFailure\<close> is a store call that fails; \<open>ValidationError\<close> is a
  request body that the schema declared for an endpoint rejects.
\<close>

datatype error = NotFound | PersistenceFailure | ValidationError

text \<open>
  Every method of \<^verbatim>\<open>ISettingStore\<close> and \<^verbatim>\<open>IEventStore\<close> that the service calls is a
  \<open>call\<close>; the world records each call with its outcome, in the order the calls are made.
\<close>

datatype call =
    Exists string
  | Get string
  | Insert string json
  | UpdateRow string json
  | Delete string
  | Store event

datatype outcome = Succeeded | Failed error

text \<open>
  \<open>settings\<close> is the content of the setting store, \<open>events\<close> the append-only
  event log. \<open>fault\<close> decides which store calls fail: it sees the calls made so
  far and the call about to be made, so any pattern of failures is some \<open>fault\<close>.
\<close>

record world =
  settings :: "string \<rightharpoonup> json"
  events :: "event list"
  trace :: "(call \<times> outcome) list"
  fault :: "(call \<times> outcome) list \<Rightarrow> call \<Rightarrow> error option"

definition record_call :: "call \<Rightarrow> outcome \<Rightarrow> world \<Rightarrow> world" where
  "record_call c out w = w\<lparr>trace := trace w @ [(c, out)]\<rparr>"

text \<open>
  \<^verbatim>\<open>const x = await m; f(x)\<close>: a rejected promise ends the function with the same
  error, and what happened to the world before stays.
\<close>

definition await ::
  "('s \<Rightarrow> (error + 'a) \<times> 's) \<Rightarrow> ('a \<Rightarrow> 's \<Rightarrow> (error + 'b) \<times> 's)
    \<Rightarrow> 's \<Rightarrow> (error + 'b) \<times> 's" where
  "await m f w = (case m w of (Inl e, w') \<Rightarrow> (Inl e, w') | (Inr x, w') \<Rightarrow> f x w')"

subsection \<open>The stores\<close>

text \<open>
  Modelled from the spec: the implementations behind \<^verbatim>\<open>ISettingStore\<close>
  (\<^verbatim>\<open>../types/stores/settings-store\<close>) are not part of the sources. The spec gives
  "key-value persistence with existence check, insert, update, delete by key" and
  \<^verbatim>\<open>get(key) -> value | NotFound\<close>. A call that fails changes neither the settings
  nor the event log.
\<close>

definition settingStore_exists :: "string \<Rightarrow> world \<Rightarrow> (error + bool) \<times> world" where
  "settingStore_exists id' w =
     (case fault w (trace w) (Exists id') of
        Some e \<Rightarrow> (Inl e, record_call (Exists id') (Failed e) w)
      | None \<Rightarrow> (Inr (settings w id' \<noteq> None), record_call (Exists id') Succeeded w))"

definition settingStore_get :: "string \<Rightarrow> world \<Rightarrow> (error + json) \<times> world" where
  "settingStore_get id' w =
     (case fault w (trace w) (Get id') of
        Some e \<Rightarrow> (Inl e, record_call (Get id') (Failed e) w)
      | None \<Rightarrow>
          (case settings w id' of
             None \<Rightarrow> (Inl NotFound, record_call (Get id') (Failed NotFound) w)
           | Some v \<Rightarrow> (Inr v, record_call (Get id') Succeeded w)))"

definition settingStore_insert :: "string \<Rightarrow> json \<Rightarrow> world \<Rightarrow> (error + unit) \<times> world" where
  "settingStore_insert id' value w =
     (case fault w (trace w) (Insert id' value) of
        Some e \<Rightarrow> (Inl e, record_call (Insert id' value) (Failed e) w)
      | None \<Rightarrow>
          (Inr (), record_call (Insert id' value) Succeeded
                     (w\<lparr>settings := (settings w)(id' \<mapsto> value)\<rparr>)))"

text \<open>An update changes the row of an existing key and no other row.\<close>

definition settingStore_updateRow :: "string \<Rightarrow> json \<Rightarrow> world \<Rightarrow> (error + unit) \<times> world" where
  "settingStore_updateRow id' value w =
     (case fault w (trace w) (UpdateRow id' value) of
        Some e \<Rightarrow> (Inl e, record_call (UpdateRow id' value) (Failed e) w)
      | None \<Rightarrow>
          (Inr (), record_call (UpdateRow id' value) Succeeded
                     (if settings w id' \<noteq> None
                      then w\<lparr>settings := (settings w)(id' \<mapsto> value)\<rparr> else w)))"

definition settingStore_delete :: "string \<Rightarrow> world \<Rightarrow> (error + unit) \<times> world" where
  "settingStore_delete id' w =
     (case fault w (trace w) (Delete id') of
        Some e \<Rightarrow> (Inl e, record_call (Delete id') (Failed e) w)
      | None \<Rightarrow>
          (Inr (), record_call (Delete id') Succeeded
                     (w\<lparr>settings := (settings w)(id' := None)\<rparr>)))"

text \<open>
  Modelled from the spec: the implementation behind \<^verbatim>\<open>IEventStore\<close>
  (\<^verbatim>\<open>../types/stores/event-store\<close>) is not part of the sources. The spec gives an
  "append-only sink for domain events".
\<close>

definition eventStore_store :: "event \<Rightarrow> world \<Rightarrow> (error + unit) \<times> world" where
  "eventStore_store e w =
     (case fault w (trace w) (Store e) of
        Some err \<Rightarrow> (Inl err, record_call (Store e) (Failed err) w)
      | None \<Rightarrow> (Inr (), record_call (Store e) Succeeded (w\<lparr>events := events w @ [e]\<rparr>)))"

subsection \<open>The service\<close>

text \<open>\<^verbatim>\<open>async get<T>(id) { return this.settingStore.get(id); }\<close>\<close>

definition SettingService_get :: "string \<Rightarrow> world \<Rightarrow> (error + json) \<times> world" where
  "SettingService_get id' = settingStore_get id'"

text \<open>
  \<^verbatim>\<open>
  async insert(id, value, createdBy) {
      const exists = await this.settingStore.exists(id);
      if (exists) {
          await this.settingStore.updateRow(id, value);
          await this.eventStore.store(new SettingUpdatedEvent({ createdBy, data: { id } }));
      } else {
          await this.settingStore.insert(id, value);
          await this.eventStore.store(new SettingCreatedEvent({ createdBy, data: { id } }));
      }
  }
  \<close>
\<close>

definition SettingService_insert ::
  "string \<Rightarrow> json \<Rightarrow> string \<Rightarrow> world \<Rightarrow> (error + unit) \<times> world" where
  "SettingService_insert id' value createdBy' =
     await (settingStore_exists id') (\<lambda>exists.
       if exists then
         await (settingStore_updateRow id' value) (\<lambda>_.
           eventStore_store
             (SettingUpdatedEvent \<lparr>createdBy = createdBy', data = JObject [(''id'', JString id')]\<rparr>))
       else
         await (settingStore_insert id' value) (\<lambda>_.
           eventStore_store
             (SettingCreatedEvent \<lparr>createdBy = createdBy', data = JObject [(''id'', JString id')]\<rparr>)))"

text \<open>
  \<^verbatim>\<open>
  async delete(id, createdBy) {
      await this.settingStore.delete(id);
      await this.eventStore.store(new SettingDeletedEvent({ createdBy, data: { id } }));
  }
  \<close>
\<close>

definition SettingService_delete :: "string \<Rightarrow> string \<Rightarrow> world \<Rightarrow> (error + unit) \<times> world" where
  "SettingService_delete id' createdBy' =
     await (settingStore_delete id') (\<lambda>_.
       eventStore_store
         (SettingDeletedEvent \<lparr>createdBy = createdBy', data = JObject [(''id'', JString id')]\<rparr>))"

subsection \<open>Reading the trace\<close>

text \<open>The store calls an operation makes when it is run in world \<open>w\<close>, in order.\<close>

definition calls_made :: "(world \<Rightarrow> 'r \<times> world) \<Rightarrow> world \<Rightarrow> (call \<times> outcome) list" where
  "calls_made op w = drop (length (trace w)) (trace (snd (op w)))"

fun is_write :: "call \<Rightarrow> bool" where
  "is_write (Insert _ _) = True"
| "is_write (UpdateRow _ _) = True"
| "is_write (Delete _) = True"
| "is_write _ = False"

fun is_emit :: "call \<Rightarrow> bool" where
  "is_emit (Store _) = True"
| "is_emit _ = False"

fun is_failed :: "outcome \<Rightarrow> bool" where
  "is_failed (Failed _) = True"
| "is_failed Succeeded = False"

text \<open>No store call fails in this world, whatever has happened before.\<close>

definition reliable :: "world \<Rightarrow> bool" where
  "reliable w = (\<forall>h c. fault w h c = None)"

text \<open>
  Every event the operation sends to the event store comes after a write to the
  setting store that succeeded.
\<close>

definition event_follows_write :: "(call \<times> outcome) list \<Rightarrow> bool" where
  "event_follows_write t =
     (\<forall>j<length t. is_emit (fst (t ! j)) \<longrightarrow>
        (\<exists>i<j. is_write (fst (t ! i)) \<and> snd (t ! i) = Succeeded))"

text \<open>
  When a write of the operation fails, the operation sends no event to the event
  store, the event log is as before, and the operation ends with an error.
\<close>

definition no_event_for_failed_write ::
  "(world \<Rightarrow> (error + unit) \<times> world) \<Rightarrow> world \<Rightarrow> bool" where
  "no_event_for_failed_write op w =
     ((\<exists>x\<in>set (calls_made op w). is_write (fst x) \<and> is_failed (snd x)) \<longrightarrow>
        (\<forall>x\<in>set (calls_made op w). \<not> is_emit (fst x)) \<and>
        events (snd (op w)) = events w \<and> isl (fst (op w)))"

section \<open>ProxyController\<close>

subsection \<open>Requests\<close>

text \<open>
  \<^verbatim>\<open>req.query\<close> is what express's query parser gives: every value is a string, an
  array or a nested object. A query object is a map from its keys; a key that is
  not there reads as \<^verbatim>\<open>undefined\<close>, which is \<open>None\<close>.
\<close>

datatype qval =
    QStr string
  | QArr "qval list"
  | QObj "(string \<times> qval) list"

type_synonym jsobject = "string \<rightharpoonup> qval"

text \<open>
  Objects live in a store and are passed by reference, so that a write through one
  reference is seen through every other. Every address holds an object.
\<close>

type_synonym addr = nat

type_synonym heap = "addr \<Rightarrow> jsobject"

text \<open>\<^verbatim>\<open>ApiUser\<close>: of the caller identity the controller reads the environment only.\<close>

record ApiUser =
  environment :: string

text \<open>
  \<^verbatim>\<open>interface ApiUserRequest extends Request { user: ApiUser }\<close>, with the fields
  the handlers read. \<open>query\<close> is a reference into the heap.
\<close>

record ApiUserRequest =
  query :: addr
  ip :: string
  user :: ApiUser
  body :: json

text \<open>The \<^verbatim>\<open>Context\<close> of \<^verbatim>\<open>unleash-client\<close>: an object of context fields.\<close>

type_synonym Context = jsobject

subsection \<open>createContext\<close>

text \<open>
  JavaScript's truthiness on query values: the empty string is falsy, every other
  string and every array and object is truthy; \<^verbatim>\<open>undefined\<close> is falsy.
\<close>

fun truthy :: "qval \<Rightarrow> bool" where
  "truthy (QStr s) = (s \<noteq> [])"
| "truthy (QArr _) = True"
| "truthy (QObj _) = True"

text \<open>\<^verbatim>\<open>a || b\<close>, where \<^verbatim>\<open>a\<close> is a property read.\<close>

definition js_or :: "qval option \<Rightarrow> qval \<Rightarrow> qval" where
  "js_or a b = (case a of None \<Rightarrow> b | Some x \<Rightarrow> if truthy x then x else b)"

text \<open>
  Modelled from the spec: \<^verbatim>\<open>createContext\<close> of \<^verbatim>\<open>../../proxy/create-context\<close> is
  imported and not part of the sources. The spec gives the evaluation context as the
  "query key/value pairs" after the two writes below, where "no other field is
  special-cased": the fields of the query are the fields of the context.
\<close>

definition createContext :: "jsobject \<Rightarrow> Context" where
  "createContext value = value"

text \<open>
  \<^verbatim>\<open>
  private static createContext(req: ApiUserRequest): Context {
      const { query } = req;
      query.remoteAddress = query.remoteAddress || req.ip;
      query.environment = req.user.environment;
      return createContext(query);
  }
  \<close>
  \<^verbatim>\<open>const { query } = req\<close> copies the reference, so both assignments write into
  the object \<^verbatim>\<open>req.query\<close> refers to. The result is the context and the heap after
  the writes.
\<close>

definition ProxyController_createContext :: "ApiUserRequest \<Rightarrow> heap \<Rightarrow> Context \<times> heap" where
  "ProxyController_createContext req h =
     (let query' = query req;
          h1 = h(query' := (h query')(''remoteAddress'' \<mapsto>
                   js_or (h query' ''remoteAddress'') (QStr (ip req))));
          h2 = h1(query' := (h1 query')(''environment'' \<mapsto> QStr (environment (user req))))
      in (createContext (h2 query'), h2))"

subsection \<open>Responses\<close>

text \<open>
  What express has for a response: the status code and the body once one is sent.
\<close>

datatype response_body = JsonBody json | TextBody string

record Response =
  statusCode :: nat
  sent :: "response_body option"

text \<open>\<^verbatim>\<open>res.status(code)\<close> sets the status code and gives the response back.\<close>

definition status :: "nat \<Rightarrow> Response \<Rightarrow> Response" where
  "status code res = res\<lparr>statusCode := code\<rparr>"

text \<open>\<^verbatim>\<open>res.json(obj)\<close> sends the object as the body.\<close>

definition json_body :: "json \<Rightarrow> Response \<Rightarrow> Response" where
  "json_body obj res = res\<lparr>sent := Some (JsonBody obj)\<rparr>"

text \<open>
  The messages express has registered for the status codes this controller passes
  to \<^verbatim>\<open>sendStatus\<close> and \<^verbatim>\<open>status\<close>.
\<close>

definition statusMessage :: "nat \<rightharpoonup> string" where
  "statusMessage = [200 \<mapsto> ''OK'', 405 \<mapsto> ''Method Not Allowed'']"

text \<open>
  \<^verbatim>\<open>res.sendStatus(code)\<close> sets the status code and sends the registered message
  of the code as a text body: express documents \<^verbatim>\<open>res.sendStatus(200)\<close> as
  \<^verbatim>\<open>res.status(200).send('OK')\<close>. For a code outside the table above the model
  sets the status code and leaves the body as it is.
\<close>

definition sendStatus :: "nat \<Rightarrow> Response \<Rightarrow> Response" where
  "sendStatus code res =
     (case statusMessage code of
        Some msg \<Rightarrow> res\<lparr>statusCode := code, sent := Some (TextBody msg)\<rparr>
      | None \<Rightarrow> res\<lparr>statusCode := code\<rparr>)"

subsection \<open>The state a handler acts on\<close>

text \<open>
  The schemas a route names in its OpenAPI description. \<open>emptyResponse\<close>,
  \<open>createResponseSchema\<close> and \<open>createRequestSchema\<close> are imported; the model keeps
  them by name.
\<close>

datatype schema = emptyResponse | createResponseSchema string | createRequestSchema string

text \<open>
  The calls the handlers of the controller make to its two collaborators,
  \<^verbatim>\<open>this.proxyService\<close> and \<^verbatim>\<open>this.openApiService\<close>.
\<close>

datatype service_call =
    GetProxyFeatures ApiUser Context
  | RegisterProxyMetrics ApiUser json string
  | RespondWithValidation nat json

text \<open>
  \<open>heap\<close> holds the query objects, \<open>res\<close> is the response of the request at hand,
  \<open>service_calls\<close> the calls made to the collaborators so far, and \<open>stores\<close> the
  setting store and the event log of the platform. The two \<open>proxyService\<close> fields
  say what the external service answers. \<open>openApiService_validate\<close> is the
  validator behind \<^verbatim>\<open>openApiService.validPath\<close>: for a schema and a request body
  it gives \<open>None\<close> when the body satisfies the schema and the details of the
  violation otherwise. The schemas themselves are not part of the sources, so which
  bodies they accept is left to this field.
\<close>

record gateway =
  heap :: heap
  res :: Response
  service_calls :: "service_call list"
  stores :: world
  proxyService_getProxyFeatures :: "ApiUser \<Rightarrow> Context \<Rightarrow> error + json"
  proxyService_registerProxyMetrics :: "ApiUser \<Rightarrow> json \<Rightarrow> string \<Rightarrow> error + unit"
  openApiService_validate :: "schema \<Rightarrow> json \<Rightarrow> json option"

type_synonym handler = "ApiUserRequest \<Rightarrow> gateway \<Rightarrow> (error + unit) \<times> gateway"

subsection \<open>Handlers\<close>

text \<open>
  \<^verbatim>\<open>
  private static async endpointNotImplemented(req, res) {
      res.status(405).json({
          message: 'The frontend API does not support this endpoint.',
      });
  }
  \<close>
\<close>

definition endpointNotImplemented :: handler where
  "endpointNotImplemented req g =
     (Inr (), g\<lparr>res :=
        json_body (JObject [(''message'',
                     JString ''The frontend API does not support this endpoint.'')])
          (status 405 (res g))\<rparr>)"

text \<open>
  Modelled from the spec: \<^verbatim>\<open>OpenApiService.respondWithValidation\<close> is not part of
  the sources. The spec gives "return toggle list as 200 with a validated response
  body". The schema id passed to it, a constant of a module that is not part of the
  sources either, is left out of the recorded call.
\<close>

definition respondWithValidation :: "nat \<Rightarrow> json \<Rightarrow> gateway \<Rightarrow> (error + unit) \<times> gateway" where
  "respondWithValidation code data' g =
     (Inr (), g\<lparr>res := json_body data' (status code (res g)),
                service_calls := service_calls g @ [RespondWithValidation code data']\<rparr>)"

text \<open>
  \<^verbatim>\<open>
  private async getProxyFeatures(req, res) {
      const toggles = await this.proxyService.getProxyFeatures(
          req.user,
          ProxyController.createContext(req),
      );
      this.openApiService.respondWithValidation(
          200, res, proxyFeaturesSchema.$id, { toggles },
      );
  }
  \<close>
\<close>

definition getProxyFeatures :: handler where
  "getProxyFeatures req g =
     (let (context, h') = ProxyController_createContext req (heap g) in
      await (\<lambda>g. (proxyService_getProxyFeatures g (user req) context,
                   g\<lparr>heap := h',
                     service_calls := service_calls g @ [GetProxyFeatures (user req) context]\<rparr>))
        (\<lambda>toggles. respondWithValidation 200 (JObject [(''toggles'', toggles)])) g)"

text \<open>
  \<^verbatim>\<open>
  private async registerProxyMetrics(req, res) {
      await this.proxyService.registerProxyMetrics(req.user, req.body, req.ip);
      res.sendStatus(200);
  }
  \<close>
\<close>

definition registerProxyMetrics :: handler where
  "registerProxyMetrics req =
     await (\<lambda>g. (proxyService_registerProxyMetrics g (user req) (body req) (ip req),
                   g\<lparr>service_calls :=
                       service_calls g @ [RegisterProxyMetrics (user req) (body req) (ip req)]\<rparr>))
        (\<lambda>_ g. (Inr (), g\<lparr>res := sendStatus 200 (res g)\<rparr>))"

text \<open>
  \<^verbatim>\<open>
  private static async registerProxyClient(req, res) {
      // Client registration is not yet supported by @unleash/proxy,
      // but proxy clients may still expect a 200 from this endpoint.
      res.sendStatus(200);
  }
  \<close>
\<close>

definition registerProxyClient :: handler where
  "registerProxyClient req g = (Inr (), g\<lparr>res := sendStatus 200 (res g)\<rparr>)"

subsection \<open>The route table\<close>

datatype http_method = GET | POST

datatype permission = NONE

text \<open>
  The argument of \<^verbatim>\<open>openApiService.validPath\<close>: the OpenAPI description of the
  route.
\<close>

record validPath =
  tags :: "string list"
  operationId :: string
  requestBody :: "schema option"
  responses :: "(nat \<times> schema) list"

text \<open>The argument of \<^verbatim>\<open>this.route\<close>; \<open>route_method\<close> is its \<^verbatim>\<open>method\<close> field.\<close>

record route =
  route_method :: http_method
  path :: string
  handler :: handler
  permission :: permission
  middleware :: "validPath list"

record IUnleashConfig =
  frontendApiOrigins :: "string list"

datatype app_middleware = corsOriginMiddleware "string list"

text \<open>
  The controller after its constructor has run: what was installed with
  \<^verbatim>\<open>this.app.use\<close> and the routes declared with \<^verbatim>\<open>this.route\<close>, in the order
  of the source.
\<close>

record ProxyController =
  app_use :: "app_middleware list"
  routes :: "route list"

definition ProxyController_constructor :: "IUnleashConfig \<Rightarrow> ProxyController" where
  "ProxyController_constructor config =
     \<lparr>app_use =
        (if length (frontendApiOrigins config) > 0
         then [corsOriginMiddleware (frontendApiOrigins config)] else []),
      routes =
        [\<lparr>route_method = GET, path = '''', handler = getProxyFeatures, permission = NONE,
          middleware =
            [\<lparr>tags = [''Unstable''], operationId = ''getFrontendFeatures'',
              requestBody = None,
              responses = [(200, createResponseSchema ''proxyFeaturesSchema'')]\<rparr>]\<rparr>,
         \<lparr>route_method = POST, path = '''', handler = endpointNotImplemented,
          permission = NONE, middleware = []\<rparr>,
         \<lparr>route_method = GET, path = ''/client/features'', handler = endpointNotImplemented,
          permission = NONE, middleware = []\<rparr>,
         \<lparr>route_method = POST, path = ''/client/metrics'', handler = registerProxyMetrics,
          permission = NONE,
          middleware =
            [\<lparr>tags = [''Unstable''], operationId = ''registerFrontendMetrics'',
              requestBody = Some (createRequestSchema ''proxyMetricsSchema''),
              responses = [(200, emptyResponse)]\<rparr>]\<rparr>,
         \<lparr>route_method = POST, path = ''/client/register'', handler = registerProxyClient,
          permission = NONE,
          middleware =
            [\<lparr>tags = [''Unstable''], operationId = ''registerFrontendClient'',
              requestBody = Some (createRequestSchema ''proxyClientSchema''),
              responses = [(200, emptyResponse)]\<rparr>]\<rparr>,
         \<lparr>route_method = GET, path = ''/health'', handler = endpointNotImplemented,
          permission = NONE, middleware = []\<rparr>,
         \<lparr>route_method = GET, path = ''/internal-backstage/prometheus'',
          handler = endpointNotImplemented, permission = NONE, middleware = []\<rparr>]\<rparr>"

text \<open>
  Modelled from the spec: \<^verbatim>\<open>Controller.route\<close> of \<^verbatim>\<open>../controller\<close> and the
  router behind it are not part of the sources. The spec gives "a fixed,
  statically-declared table of (method, path) -> behavior, evaluated in declaration
  order". The spec writes the root of the mounted gateway \<^verbatim>\<open>/\<close>, the source declares
  it with the empty path.
\<close>

definition declared_path :: "string \<Rightarrow> string" where
  "declared_path p = (if p = ''/'' then '''' else p)"

definition dispatch :: "ProxyController \<Rightarrow> http_method \<Rightarrow> string \<Rightarrow> route option" where
  "dispatch c m p = find (\<lambda>r. route_method r = m \<and> path r = declared_path p) (routes c)"

text \<open>
  Modelled from the spec: the middleware that \<^verbatim>\<open>openApiService.validPath\<close> returns
  is not part of the sources. The spec gives "malformed request body against an
  endpoint's declared schema; surfaced to the caller as a 4xx with structured
  details". A description with a \<^verbatim>\<open>requestBody\<close> checks the body of the request
  against that schema; one without checks nothing. The result is the details of the
  first violation, or \<open>None\<close> when the request passes.
\<close>

definition validPath_violation :: "gateway \<Rightarrow> ApiUserRequest \<Rightarrow> validPath \<Rightarrow> json option" where
  "validPath_violation g req openapi =
     (case requestBody openapi of
        None \<Rightarrow> None
      | Some s \<Rightarrow> openApiService_validate g s (body req))"

fun middleware_violation :: "validPath list \<Rightarrow> ApiUserRequest \<Rightarrow> gateway \<Rightarrow> json option" where
  "middleware_violation [] req g = None"
| "middleware_violation (openapi # rest) req g =
     (case validPath_violation g req openapi of
        Some details \<Rightarrow> Some details
      | None \<Rightarrow> middleware_violation rest req g)"

text \<open>
  Handling a request: the middleware of the first matching route runs, if there is
  such a route. A request that the middleware rejects is answered with status 400
  and the details, and the handler of the route is not run; for a request that
  passes, the handler runs.
\<close>

definition handle ::
  "ProxyController \<Rightarrow> http_method \<Rightarrow> string \<Rightarrow> ApiUserRequest \<Rightarrow> gateway
    \<Rightarrow> ((error + unit) \<times> gateway) option" where
  "handle c m p req g =
     map_option
       (\<lambda>r. case middleware_violation (middleware r) req g of
              Some details \<Rightarrow>
                (Inl ValidationError, g\<lparr>res := json_body details (status 400 (res g))\<rparr>)
            | None \<Rightarrow> handler r req g)
       (dispatch c m p)"

section \<open>Example inputs\<close>

text \<open>A world with no settings in which every store call succeeds.\<close>

definition example_world :: world where
  "example_world = \<lparr>settings = Map.empty, events = [], trace = [], fault = (\<lambda>_ _. None)\<rparr>"

text \<open>The same with one setting stored under the key \<open>k\<close>.\<close>

definition example_world_with_k :: world where
  "example_world_with_k =
     \<lparr>settings = [''k'' \<mapsto> JString ''v1''], events = [], trace = [], fault = (\<lambda>_ _. None)\<rparr>"

text \<open>A world in which every write to the setting store fails.\<close>

definition example_failing_writes :: world where
  "example_failing_writes =
     \<lparr>settings = Map.empty, events = [], trace = [],
      fault = (\<lambda>_ c. if is_write c then Some PersistenceFailure else None)\<rparr>"

text \<open>A world in which the first store call fails.\<close>

definition example_failing_first_call :: world where
  "example_failing_first_call =
     \<lparr>settings = Map.empty, events = [], trace = [],
      fault = (\<lambda>h _. if h = [] then Some PersistenceFailure else None)\<rparr>"

text \<open>
  A request of an identity of environment \<open>prod\<close>, from the address \<open>1.2.3.4\<close>,
  whose query object is at address 0.
\<close>

definition example_request :: ApiUserRequest where
  "example_request =
     \<lparr>query = 0, ip = ''1.2.3.4'', user = \<lparr>environment = ''prod''\<rparr>, body = JNull\<rparr>"

text \<open>The query \<^verbatim>\<open>{}\<close>.\<close>

definition example_heap_empty :: heap where
  "example_heap_empty = (\<lambda>_. Map.empty)"

text \<open>The query \<^verbatim>\<open>{remoteAddress: "9.9.9.9", environment: "spoofed", userId: "u1"}\<close>.\<close>

definition example_heap_spoofed :: heap where
  "example_heap_spoofed =
     (\<lambda>_. Map.empty)
       (0 := [''remoteAddress'' \<mapsto> QStr ''9.9.9.9'', ''environment'' \<mapsto> QStr ''spoofed'',
              ''userId'' \<mapsto> QStr ''u1''])"

text \<open>A client registration with every field a client sends.\<close>

definition example_registration :: json where
  "example_registration =
     JObject [(''appName'', JString ''my-app''), (''instanceId'', JString ''instance-1''),
              (''sdkVersion'', JString ''unleash-client-js:1.0.0''),
              (''environment'', JString ''default''), (''interval'', JNumber 10000),
              (''started'', JString ''2022-06-24T09:59:12.822Z''),
              (''strategies'', JArray [JString ''default''])]"

text \<open>
  A gateway whose validator accepts \<open>example_registration\<close> as a
  \<^verbatim>\<open>proxyClientSchema\<close> and rejects every other body for every schema.
\<close>

definition example_gateway :: gateway where
  "example_gateway =
     \<lparr>heap = example_heap_spoofed,
      res = \<lparr>statusCode = 200, sent = None\<rparr>,
      service_calls = [],
      stores = example_world,
      proxyService_getProxyFeatures = (\<lambda>_ _. Inr (JArray [])),
      proxyService_registerProxyMetrics = (\<lambda>_ _ _. Inr ()),
      openApiService_validate =
        (\<lambda>s b. if s = createRequestSchema ''proxyClientSchema'' \<and> b = example_registration
               then None else Some (JObject [(''error'', JString ''Request validation failed'')]))\<rparr>"

text \<open>The example request with the registration as its body, and with a body that lacks fields.\<close>

definition example_register_request :: ApiUserRequest where
  "example_register_request = example_request\<lparr>body := example_registration\<rparr>"

definition example_malformed_request :: ApiUserRequest where
  "example_malformed_request =
     example_request\<lparr>body := JObject [(''appName'', JString ''a'')]\<rparr>"

section \<open>Facts about the service\<close>

lemmas store_defs = settingStore_exists_def settingStore_get_def settingStore_insert_def
  settingStore_updateRow_def settingStore_delete_def eventStore_store_def record_call_def
  await_def

text \<open>
  The shapes a list of store calls can have when it satisfies
  \<open>event_follows_write\<close>.
\<close>

lemma event_follows_write_shapes:
  "event_follows_write [(c, out)] = (\<not> is_emit c)"
  "\<not> is_emit c \<Longrightarrow> \<not> is_emit c' \<Longrightarrow> event_follows_write [(c, out), (c', out')]"
  "\<not> is_emit c \<Longrightarrow> is_write c' \<Longrightarrow> \<not> is_emit c' \<Longrightarrow>
     event_follows_write [(c, out), (c', Succeeded), (c'', out')]"
  "is_write c \<Longrightarrow> \<not> is_emit c \<Longrightarrow> event_follows_write [(c, Succeeded), (c', out')]"
  by (auto simp: event_follows_write_def less_Suc_eq nth_Cons')

text \<open>
  The store calls \<open>insert\<close> makes, by which of them fails: the existence check,
  then one write, then one event.
\<close>

lemma insert_calls:
  "calls_made (SettingService_insert k v p) w =
    (case fault w (trace w) (Exists k) of
       Some e \<Rightarrow> [(Exists k, Failed e)]
     | None \<Rightarrow>
        (let W = (if settings w k \<noteq> None then UpdateRow k v else Insert k v);
             ev = (if settings w k \<noteq> None then SettingUpdatedEvent else SettingCreatedEvent)
                    \<lparr>createdBy = p, data = JObject [(''id'', JString k)]\<rparr>
         in case fault w (trace w @ [(Exists k, Succeeded)]) W of
              Some e \<Rightarrow> [(Exists k, Succeeded), (W, Failed e)]
            | None \<Rightarrow>
               (case fault w (trace w @ [(Exists k, Succeeded), (W, Succeeded)]) (Store ev) of
                  Some e \<Rightarrow> [(Exists k, Succeeded), (W, Succeeded), (Store ev, Failed e)]
                | None \<Rightarrow> [(Exists k, Succeeded), (W, Succeeded), (Store ev, Succeeded)])))"
  by (auto simp: SettingService_insert_def calls_made_def store_defs Let_def split: option.splits)

text \<open>
  The store calls \<open>delete\<close> makes: the delete, then one event.
\<close>

lemma delete_calls:
  "calls_made (SettingService_delete k p) w =
    (let ev = SettingDeletedEvent \<lparr>createdBy = p, data = JObject [(''id'', JString k)]\<rparr>
     in case fault w (trace w) (Delete k) of
       Some e \<Rightarrow> [(Delete k, Failed e)]
     | None \<Rightarrow>
         (case fault w (trace w @ [(Delete k, Succeeded)]) (Store ev) of
            Some e \<Rightarrow> [(Delete k, Succeeded), (Store ev, Failed e)]
          | None \<Rightarrow> [(Delete k, Succeeded), (Store ev, Succeeded)]))"
  by (auto simp: SettingService_delete_def calls_made_def store_defs Let_def split: option.splits)

lemma insert_order: "event_follows_write (calls_made (SettingService_insert k v p) w)"
  by (auto simp: insert_calls Let_def event_follows_write_shapes split: option.splits)

lemma insert_no_orphan: "no_event_for_failed_write (SettingService_insert k v p) w"
  unfolding no_event_for_failed_write_def insert_calls
  by (auto simp: SettingService_insert_def store_defs Let_def split: option.splits)

lemma delete_order: "event_follows_write (calls_made (SettingService_delete k p) w)"
  by (auto simp: delete_calls Let_def event_follows_write_shapes split: option.splits)

lemma delete_no_orphan: "no_event_for_failed_write (SettingService_delete k p) w"
  unfolding no_event_for_failed_write_def delete_calls
  by (auto simp: SettingService_delete_def store_defs Let_def split: option.splits)

lemma reliable_examples: "reliable example_world" "reliable example_world_with_k"
  by (simp_all add: reliable_def example_world_def example_world_with_k_def)

lemma example_fields:
  "settings example_world = Map.empty" "events example_world = []"
  "settings example_world_with_k = [''k'' \<mapsto> JString ''v1'']" "events example_world_with_k = []"
  by (simp_all add: example_world_def example_world_with_k_def)

lemma example_failing_insert_calls:
  "calls_made (SettingService_insert ''k'' (JString ''v'') ''admin'') example_failing_writes =
     [(Exists ''k'', Succeeded), (Insert ''k'' (JString ''v''), Failed PersistenceFailure)]"
  by (simp add: insert_calls example_failing_writes_def)

lemma example_delete_calls:
  "calls_made (SettingService_delete ''k'' ''admin'') example_world =
     [(Delete ''k'', Succeeded),
      (Store (SettingDeletedEvent \<lparr>createdBy = ''admin'', data = JObject [(''id'', JString ''k'')]\<rparr>),
       Succeeded)]"
  by (simp add: delete_calls example_world_def)

section \<open>Facts about the controller\<close>

lemmas createContext_defs = ProxyController_createContext_def createContext_def Let_def js_or_def

lemmas handle_defs = handle_def dispatch_def declared_path_def ProxyController_constructor_def
  validPath_violation_def

lemma truthy_iff: "truthy v = (v \<noteq> QStr [])"
  by (cases v) auto

text \<open>
  Each of the four stub routes is found in the table and runs
  \<open>endpointNotImplemented\<close>; the root route that is found for \<open>POST\<close> is the
  second of the table, the first being the \<open>GET\<close> route of the same path.
\<close>

lemma stub_routes:
  assumes "(m, p) \<in> {(POST, ''/''), (GET, ''/client/features''), (GET, ''/health''),
                      (GET, ''/internal-backstage/prometheus'')}"
  shows "handle (ProxyController_constructor config) m p req g =
           Some (endpointNotImplemented req g)"
  using assms by (auto simp: handle_defs)

text \<open>
  A request to \<^verbatim>\<open>POST /client/register\<close> whose body the validator rejects is
  answered with status 400 and the details; \<open>registerProxyClient\<close> is not run.
\<close>

lemma register_rejects_malformed:
  assumes "openApiService_validate g (createRequestSchema ''proxyClientSchema'') (body req) =
             Some details"
  shows "handle (ProxyController_constructor config) POST ''/client/register'' req g =
      Some (Inl ValidationError,
            g\<lparr>res := \<lparr>statusCode = 400, sent = Some (JsonBody details)\<rparr>\<rparr>)"
  using assms by (auto simp: handle_defs json_body_def status_def)

lemma example_malformed_rejected:
  "map_option (\<lambda>(r, g'). (r, statusCode (res g')))
     (handle (ProxyController_constructor \<lparr>frontendApiOrigins = []\<rparr>) POST ''/client/register''
        example_malformed_request example_gateway) =
     Some (Inl ValidationError, 400)"
proof -
  have "openApiService_validate example_gateway (createRequestSchema ''proxyClientSchema'')
          (body example_malformed_request) =
        Some (JObject [(''error'', JString ''Request validation failed'')])"
    by (simp add: example_gateway_def example_malformed_request_def example_registration_def)
  from register_rejects_malformed [OF this] show ?thesis by simp
qed

section \<open>The claims\<close>

text \<open>
  C1. For every request query and every caller identity, the context built by
  \<open>ProxyController_createContext\<close> has the environment of the authenticated
  identity. What the caller supplied as \<open>environment\<close> is discarded: the context is
  the same whatever value the query had there, and also when it had none.
\<close>

theorem environment_from_identity:
  "fst (ProxyController_createContext req h) ''environment'' =
     Some (QStr (environment (user req))) \<and>
   fst (ProxyController_createContext req
          (h(query req := (h (query req))(''environment'' := supplied)))) =
     fst (ProxyController_createContext req h)"
  by (auto simp: createContext_defs fun_upd_twist)

text \<open>
  C2. When no store call fails, \<open>insert k v p\<close> checks the existence of \<open>k\<close>
  first. If \<open>k\<close> exists it updates the row and sends exactly one Updated event; if
  not it inserts and sends exactly one Created event. The event has \<open>p\<close> and a
  \<open>data\<close> object with the id \<open>k\<close> only, so not the value. In either case a
  \<open>get k\<close> that follows returns \<open>v\<close>.
\<close>

theorem insert_upserts_with_one_event:
  assumes "reliable w"
  shows "fst (SettingService_insert k v p w) = Inr () \<and>
     calls_made (SettingService_insert k v p) w =
       [(Exists k, Succeeded),
        (if settings w k \<noteq> None then UpdateRow k v else Insert k v, Succeeded),
        (Store ((if settings w k \<noteq> None then SettingUpdatedEvent else SettingCreatedEvent)
            \<lparr>createdBy = p, data = JObject [(''id'', JString k)]\<rparr>), Succeeded)] \<and>
     events (snd (SettingService_insert k v p w)) =
       events w @ [(if settings w k \<noteq> None then SettingUpdatedEvent else SettingCreatedEvent)
            \<lparr>createdBy = p, data = JObject [(''id'', JString k)]\<rparr>] \<and>
     fst (SettingService_get k (snd (SettingService_insert k v p w))) = Inr v"
  using assms
  by (auto simp: SettingService_insert_def SettingService_get_def calls_made_def store_defs
        reliable_def split: option.splits)

text \<open>
  The theorem at the key \<open>k\<close>, once in a world that has it (Updated) and once in a
  world that has not (Created).
\<close>

theorem insert_upserts_with_one_event_witness:
  "reliable example_world_with_k \<and>
   fst (SettingService_insert ''k'' (JString ''v2'') ''admin'' example_world_with_k) = Inr () \<and>
   events (snd (SettingService_insert ''k'' (JString ''v2'') ''admin'' example_world_with_k)) =
     [SettingUpdatedEvent \<lparr>createdBy = ''admin'', data = JObject [(''id'', JString ''k'')]\<rparr>] \<and>
   fst (SettingService_get ''k''
          (snd (SettingService_insert ''k'' (JString ''v2'') ''admin'' example_world_with_k))) =
     Inr (JString ''v2'') \<and>
   reliable example_world \<and>
   events (snd (SettingService_insert ''k'' (JString ''v2'') ''admin'' example_world)) =
     [SettingCreatedEvent \<lparr>createdBy = ''admin'', data = JObject [(''id'', JString ''k'')]\<rparr>] \<and>
   fst (SettingService_get ''k''
          (snd (SettingService_insert ''k'' (JString ''v2'') ''admin'' example_world))) =
     Inr (JString ''v2'')"
  using insert_upserts_with_one_event [OF reliable_examples(2), of "''k''" "JString ''v2''" "''admin''"]
    insert_upserts_with_one_event [OF reliable_examples(1), of "''k''" "JString ''v2''" "''admin''"]
  by (simp add: reliable_examples example_fields)

text \<open>
  C3, as the spec has it: the query object passed in is unchanged after the context
  is built. It is not: for the query \<^verbatim>\<open>{}\<close> the object the request refers to holds
  \<open>remoteAddress\<close> and \<open>environment\<close> afterwards.
\<close>

theorem query_mutated_in_place_counterexample:
  "snd (ProxyController_createContext example_request example_heap_empty) (query example_request)
     \<noteq> example_heap_empty (query example_request)"
proof
  assume "snd (ProxyController_createContext example_request example_heap_empty)
            (query example_request) = example_heap_empty (query example_request)"
  then have "snd (ProxyController_createContext example_request example_heap_empty)
               (query example_request) ''environment'' =
             example_heap_empty (query example_request) ''environment''"
    by simp
  then show False
    by (simp add: createContext_defs example_request_def example_heap_empty_def)
qed

text \<open>
  C3, amended. Building the context writes \<open>remoteAddress\<close> and \<open>environment\<close>
  into the query object of the request, in place. Every other key of that object
  and every other object is unchanged.
\<close>

theorem query_mutated_in_two_keys:
  "snd (ProxyController_createContext req h) (query req) ''remoteAddress'' =
     Some (js_or (h (query req) ''remoteAddress'') (QStr (ip req))) \<and>
   snd (ProxyController_createContext req h) (query req) ''environment'' =
     Some (QStr (environment (user req))) \<and>
   (\<forall>k. k \<noteq> ''remoteAddress'' \<and> k \<noteq> ''environment'' \<longrightarrow>
      snd (ProxyController_createContext req h) (query req) k = h (query req) k) \<and>
   (\<forall>a. a \<noteq> query req \<longrightarrow> snd (ProxyController_createContext req h) a = h a)"
  by (auto simp: ProxyController_createContext_def Let_def)

text \<open>
  The theorem at a query with a \<open>userId\<close>: the key is kept, the environment is
  overwritten, and the object at another address is untouched.
\<close>

theorem query_mutated_in_two_keys_witness:
  "''userId'' \<noteq> ''remoteAddress'' \<and> ''userId'' \<noteq> ''environment'' \<and>
   snd (ProxyController_createContext example_request example_heap_spoofed)
     (query example_request) ''userId'' = Some (QStr ''u1'') \<and>
   snd (ProxyController_createContext example_request example_heap_spoofed)
     (query example_request) ''environment'' = Some (QStr ''prod'') \<and>
   (1::nat) \<noteq> query example_request \<and>
   snd (ProxyController_createContext example_request example_heap_spoofed) 1 = Map.empty"
  using query_mutated_in_two_keys [of example_request example_heap_spoofed]
  by (simp add: example_request_def example_heap_spoofed_def)

text \<open>
  C4. In \<open>insert\<close> and in \<open>delete\<close>, whichever store calls fail, an event is sent
  to the event store only after a write to the setting store that succeeded; and
  when the write fails no event is sent, the event log is unchanged and the
  operation ends with an error.
\<close>

theorem write_precedes_event:
  "event_follows_write (calls_made (SettingService_insert k v p) w) \<and>
   no_event_for_failed_write (SettingService_insert k v p) w \<and>
   event_follows_write (calls_made (SettingService_delete k p) w) \<and>
   no_event_for_failed_write (SettingService_delete k p) w"
  by (simp add: insert_order insert_no_orphan delete_order delete_no_orphan)

text \<open>
  The theorem in a world whose writes fail (the insert is attempted, no event
  follows) and in a world without failures (the event of a delete is the second
  call, after the delete).
\<close>

theorem write_precedes_event_witness:
  "(\<exists>x\<in>set (calls_made (SettingService_insert ''k'' (JString ''v'') ''admin'')
               example_failing_writes). is_write (fst x) \<and> is_failed (snd x)) \<and>
   events (snd (SettingService_insert ''k'' (JString ''v'') ''admin'' example_failing_writes)) =
     events example_failing_writes \<and>
   isl (fst (SettingService_insert ''k'' (JString ''v'') ''admin'' example_failing_writes)) \<and>
   is_emit (fst (calls_made (SettingService_delete ''k'' ''admin'') example_world ! 1)) \<and>
   (\<exists>i<1. is_write (fst (calls_made (SettingService_delete ''k'' ''admin'') example_world ! i)) \<and>
      snd (calls_made (SettingService_delete ''k'' ''admin'') example_world ! i) = Succeeded)"
proof -
  have failed_write:
    "\<exists>x\<in>set (calls_made (SettingService_insert ''k'' (JString ''v'') ''admin'')
               example_failing_writes). is_write (fst x) \<and> is_failed (snd x)"
    by (simp add: example_failing_insert_calls)
  have emit: "is_emit (fst (calls_made (SettingService_delete ''k'' ''admin'') example_world ! 1))"
    by (simp add: example_delete_calls)
  note all = write_precedes_event [of "''k''" "JString ''v''" "''admin''" example_failing_writes]
  note all' = write_precedes_event [of "''k''" "JString ''v''" "''admin''" example_world]
  from all have "no_event_for_failed_write
      (SettingService_insert ''k'' (JString ''v'') ''admin'') example_failing_writes"
    by simp
  with failed_write have 1:
    "events (snd (SettingService_insert ''k'' (JString ''v'') ''admin'' example_failing_writes)) =
       events example_failing_writes \<and>
     isl (fst (SettingService_insert ''k'' (JString ''v'') ''admin'' example_failing_writes))"
    unfolding no_event_for_failed_write_def by blast
  from all' have "event_follows_write (calls_made (SettingService_delete ''k'' ''admin'') example_world)"
    by simp
  then have 2: "\<exists>i<1. is_write (fst (calls_made (SettingService_delete ''k'' ''admin'') example_world ! i)) \<and>
      snd (calls_made (SettingService_delete ''k'' ''admin'') example_world ! i) = Succeeded"
    unfolding event_follows_write_def using emit
    by (simp add: example_delete_calls)
  from failed_write emit 1 2 show ?thesis by blast
qed

text \<open>
  C5. When no store call fails, \<open>delete k p\<close> makes no existence check: its first
  store call is the delete, and it then sends exactly one Deleted event with \<open>k\<close>
  and \<open>p\<close>. Nothing is assumed about \<open>k\<close> being stored before, and the operation
  ends without an error.
\<close>

theorem delete_is_unconditional:
  assumes "reliable w"
  shows "fst (SettingService_delete k p w) = Inr () \<and>
     calls_made (SettingService_delete k p) w =
       [(Delete k, Succeeded),
        (Store (SettingDeletedEvent \<lparr>createdBy = p, data = JObject [(''id'', JString k)]\<rparr>),
         Succeeded)] \<and>
     events (snd (SettingService_delete k p w)) =
       events w @ [SettingDeletedEvent \<lparr>createdBy = p, data = JObject [(''id'', JString k)]\<rparr>] \<and>
     settings (snd (SettingService_delete k p w)) = (settings w)(k := None)"
  using assms
  by (auto simp: SettingService_delete_def calls_made_def store_defs reliable_def
        split: option.splits)

text \<open>
  The theorem at a key that is not stored and at a key that is.
\<close>

theorem delete_is_unconditional_witness:
  "reliable example_world \<and> settings example_world ''k'' = None \<and>
   fst (SettingService_delete ''k'' ''admin'' example_world) = Inr () \<and>
   events (snd (SettingService_delete ''k'' ''admin'' example_world)) =
     [SettingDeletedEvent \<lparr>createdBy = ''admin'', data = JObject [(''id'', JString ''k'')]\<rparr>] \<and>
   reliable example_world_with_k \<and> settings example_world_with_k ''k'' = Some (JString ''v1'') \<and>
   events (snd (SettingService_delete ''k'' ''admin'' example_world_with_k)) =
     [SettingDeletedEvent \<lparr>createdBy = ''admin'', data = JObject [(''id'', JString ''k'')]\<rparr>]"
  using delete_is_unconditional [OF reliable_examples(1), of "''k''" "''admin''"]
    delete_is_unconditional [OF reliable_examples(2), of "''k''" "''admin''"]
  by (simp add: reliable_examples example_fields)

text \<open>
  C6. The \<open>remoteAddress\<close> of the context is the value of the query when the
  query has one that is not the empty string, and the address the transport
  observed (\<open>req.ip\<close>) when the query has none or has the empty string.
\<close>

theorem remoteAddress_from_query_or_ip:
  "(\<forall>v. h (query req) ''remoteAddress'' = Some v \<and> v \<noteq> QStr [] \<longrightarrow>
      fst (ProxyController_createContext req h) ''remoteAddress'' = Some v) \<and>
   (h (query req) ''remoteAddress'' = None \<or> h (query req) ''remoteAddress'' = Some (QStr []) \<longrightarrow>
      fst (ProxyController_createContext req h) ''remoteAddress'' = Some (QStr (ip req)))"
  by (auto simp: createContext_defs truthy_iff)

text \<open>
  The two examples of the spec: the supplied address \<open>9.9.9.9\<close> is kept, and the
  query \<^verbatim>\<open>{}\<close> from \<open>1.2.3.4\<close> with the environment \<open>prod\<close> gives
  \<^verbatim>\<open>{remoteAddress: "1.2.3.4", environment: "prod"}\<close>.
\<close>

theorem remoteAddress_from_query_or_ip_witness:
  "example_heap_spoofed (query example_request) ''remoteAddress'' = Some (QStr ''9.9.9.9'') \<and>
   QStr ''9.9.9.9'' \<noteq> QStr [] \<and>
   fst (ProxyController_createContext example_request example_heap_spoofed) ''remoteAddress'' =
     Some (QStr ''9.9.9.9'') \<and>
   example_heap_empty (query example_request) ''remoteAddress'' = None \<and>
   fst (ProxyController_createContext example_request example_heap_empty) =
     [''remoteAddress'' \<mapsto> QStr ''1.2.3.4'', ''environment'' \<mapsto> QStr ''prod'']"
proof -
  have present:
    "example_heap_spoofed (query example_request) ''remoteAddress'' = Some (QStr ''9.9.9.9'')"
    by (simp add: example_request_def example_heap_spoofed_def)
  have absent: "example_heap_empty (query example_request) ''remoteAddress'' = None"
    by (simp add: example_heap_empty_def)
  note thm1 = remoteAddress_from_query_or_ip [of example_heap_spoofed example_request]
  note thm2 = remoteAddress_from_query_or_ip [of example_heap_empty example_request]
  from thm1 present have 1:
    "fst (ProxyController_createContext example_request example_heap_spoofed) ''remoteAddress'' =
       Some (QStr ''9.9.9.9'')"
    by simp
  from thm2 absent have 2:
    "fst (ProxyController_createContext example_request example_heap_empty) ''remoteAddress'' =
       Some (QStr (ip example_request))"
    by simp
  have 3: "fst (ProxyController_createContext example_request example_heap_empty) =
     [''remoteAddress'' \<mapsto> QStr ''1.2.3.4'', ''environment'' \<mapsto> QStr ''prod'']"
    by (auto simp: createContext_defs example_request_def example_heap_empty_def)
  from present absent 1 3 show ?thesis by simp
qed

text \<open>
  C7. A request to \<^verbatim>\<open>POST /\<close>, \<^verbatim>\<open>GET /client/features\<close>, \<^verbatim>\<open>GET /health\<close> or
  \<^verbatim>\<open>GET /internal-backstage/prometheus\<close> is answered with status 405 and a JSON
  body whose \<open>message\<close> is not empty; nothing else of the state changes. The
  response is the same for every other request and every other content of the
  query objects.
\<close>

theorem stub_endpoints_answer_405:
  assumes "(m, p) \<in> {(POST, ''/''), (GET, ''/client/features''), (GET, ''/health''),
                      (GET, ''/internal-backstage/prometheus'')}"
  shows "(\<exists>msg. msg \<noteq> [] \<and>
           handle (ProxyController_constructor config) m p req g =
             Some (Inr (), g\<lparr>res := \<lparr>statusCode = 405,
                     sent = Some (JsonBody (JObject [(''message'', JString msg)]))\<rparr>\<rparr>)) \<and>
         map_option (\<lambda>(r, g'). res g')
           (handle (ProxyController_constructor config) m p req' (g\<lparr>heap := h'\<rparr>)) =
         map_option (\<lambda>(r, g'). res g')
           (handle (ProxyController_constructor config) m p req g)"
proof -
  have "endpointNotImplemented req g =
      (Inr (), g\<lparr>res := \<lparr>statusCode = 405,
         sent = Some (JsonBody (JObject [(''message'',
                   JString ''The frontend API does not support this endpoint.'')]))\<rparr>\<rparr>)"
    by (simp add: endpointNotImplemented_def json_body_def status_def)
  moreover have "endpointNotImplemented req' (g\<lparr>heap := h'\<rparr>) =
      (\<lambda>(r, g'). (r, g'\<lparr>heap := h'\<rparr>)) (endpointNotImplemented req g)"
    by (simp add: endpointNotImplemented_def)
  ultimately show ?thesis
    using stub_routes [OF assms] by auto
qed

text \<open>
  The theorem at \<^verbatim>\<open>GET /health\<close>.
\<close>

theorem stub_endpoints_answer_405_witness:
  "(GET, ''/health'') \<in> {(POST, ''/''), (GET, ''/client/features''), (GET, ''/health''),
                      (GET, ''/internal-backstage/prometheus'')} \<and>
   map_option (\<lambda>(r, g'). (r, statusCode (res g')))
     (handle (ProxyController_constructor \<lparr>frontendApiOrigins = []\<rparr>) GET ''/health''
        example_request example_gateway) = Some (Inr (), 405)"
proof -
  have h: "(GET, ''/health'') \<in> {(POST, ''/''), (GET, ''/client/features''), (GET, ''/health''),
                      (GET, ''/internal-backstage/prometheus'')}"
    by simp
  from stub_endpoints_answer_405 [OF h, of "\<lparr>frontendApiOrigins = []\<rparr>" example_request example_gateway]
  obtain msg where "handle (ProxyController_constructor \<lparr>frontendApiOrigins = []\<rparr>) GET ''/health''
        example_request example_gateway = Some (Inr (), example_gateway\<lparr>res := \<lparr>statusCode = 405,
                     sent = Some (JsonBody (JObject [(''message'', JString msg)]))\<rparr>\<rparr>)"
    by blast
  with h show ?thesis by simp
qed

text \<open>
  C8. Every well-formed request to \<^verbatim>\<open>POST /client/register\<close>, that is every
  request whose body the validator accepts as a \<^verbatim>\<open>proxyClientSchema\<close>, is answered
  with status 200 and changes nothing but the response: no store is written, no
  event is sent and no collaborator is called. The body is not empty:
  \<^verbatim>\<open>res.sendStatus(200)\<close> sends the text \<^verbatim>\<open>OK\<close>, while the route declares
  \<open>emptyResponse\<close> for the status 200.
\<close>

theorem register_sends_OK:
  assumes "openApiService_validate g (createRequestSchema ''proxyClientSchema'') (body req) = None"
  shows "handle (ProxyController_constructor config) POST ''/client/register'' req g =
      Some (Inr (), g\<lparr>res := \<lparr>statusCode = 200, sent = Some (TextBody ''OK'')\<rparr>\<rparr>) \<and>
   map_option (\<lambda>r. map responses (middleware r))
     (dispatch (ProxyController_constructor config) POST ''/client/register'') =
      Some [[(200, emptyResponse)]]"
  using assms
  by (auto simp: handle_defs registerProxyClient_def sendStatus_def statusMessage_def)

text \<open>
  The theorem at the example registration, which the validator of the example
  gateway accepts: the response is 200 with the body \<^verbatim>\<open>OK\<close>.
\<close>

theorem register_sends_OK_witness:
  "openApiService_validate example_gateway (createRequestSchema ''proxyClientSchema'')
     (body example_register_request) = None \<and>
   map_option (\<lambda>(r, g'). (r, res g'))
     (handle (ProxyController_constructor \<lparr>frontendApiOrigins = []\<rparr>) POST ''/client/register''
        example_register_request example_gateway) =
     Some (Inr (), \<lparr>statusCode = 200, sent = Some (TextBody ''OK'')\<rparr>)"
proof -
  have valid:
    "openApiService_validate example_gateway (createRequestSchema ''proxyClientSchema'')
       (body example_register_request) = None"
    by (simp add: example_gateway_def example_register_request_def)
  from register_sends_OK [OF valid, of "\<lparr>frontendApiOrigins = []\<rparr>"] valid
  show ?thesis by simp
qed

text \<open>
  C9. \<open>get k\<close> is a read: whether it succeeds or fails, the settings and the
  event log are as before, and the one store call it makes is the \<open>get\<close> of the
  setting store.
\<close>

theorem get_is_pure_read:
  "settings (snd (SettingService_get k w)) = settings w \<and>
   events (snd (SettingService_get k w)) = events w \<and>
   (\<exists>out. calls_made (SettingService_get k) w = [(Get k, out)])"
  by (auto simp: SettingService_get_def calls_made_def store_defs split: option.splits)

text \<open>
  C10. When the existence check of \<open>insert\<close> fails with an error, \<open>insert\<close> ends
  with that error, the failed check is the only store call it has made, and the
  settings and the event log are unchanged.
\<close>

theorem insert_failed_existence_check:
  assumes "fault w (trace w) (Exists k) = Some e"
  shows "fst (SettingService_insert k v p w) = Inl e \<and>
     settings (snd (SettingService_insert k v p w)) = settings w \<and>
     events (snd (SettingService_insert k v p w)) = events w \<and>
     calls_made (SettingService_insert k v p) w = [(Exists k, Failed e)]"
  using assms
  by (auto simp: SettingService_insert_def calls_made_def store_defs split: option.splits)

text \<open>
  The theorem in a world whose first store call fails.
\<close>

theorem insert_failed_existence_check_witness:
  "fault example_failing_first_call (trace example_failing_first_call) (Exists ''k'') =
     Some PersistenceFailure \<and>
   fst (SettingService_insert ''k'' (JString ''v'') ''admin'' example_failing_first_call) =
     Inl PersistenceFailure \<and>
   settings (snd (SettingService_insert ''k'' (JString ''v'') ''admin'' example_failing_first_call)) =
     Map.empty \<and>
   events (snd (SettingService_insert ''k'' (JString ''v'') ''admin'' example_failing_first_call)) = []"
proof -
  have h: "fault example_failing_first_call (trace example_failing_first_call) (Exists ''k'') =
     Some PersistenceFailure"
    by (simp add: example_failing_first_call_def)
  from insert_failed_existence_check [OF h, of "JString ''v''" "''admin''"] h
  show ?thesis by (simp add: example_failing_first_call_def)
qed

end
